theory Spec2Isabelle
  imports Main "HOL-Library.Product_Lexorder" "HOL-Library.AList"
begin

section \<open>Data model of \<open>temporal_db.py\<close>\<close>

text \<open>
  A naive Python \<open>datetime\<close> is the tuple (year, month, day, hour, minute, second,
  microsecond), compared lexicographically. It is kept here as the pair of what
  \<open>.date()\<close> and \<open>.time()\<close> return, so that the lexicographic order on the pair is
  the order of Python's datetimes, \<open>fst\<close> is \<open>.date()\<close> and \<open>snd\<close> is \<open>.time()\<close>.
\<close>

type_synonym pydate = "nat \<times> nat \<times> nat"
type_synonym pytime = "nat \<times> nat \<times> nat \<times> nat"
type_synonym datetime = "pydate \<times> pytime"

definition date_of :: "datetime \<Rightarrow> pydate" where
  "date_of dt = fst dt"

definition time_of :: "datetime \<Rightarrow> pytime" where
  "time_of dt = snd dt"

text \<open>\<open>datetime(y, m, d)\<close>: midnight of the given day.\<close>

definition datetime_ymd :: "nat \<Rightarrow> nat \<Rightarrow> nat \<Rightarrow> datetime" where
  "datetime_ymd y m d = ((y, m, d), (0, 0, 0, 0))"

text \<open>\<open>datetime.min\<close> of Python's standard library: the earliest representable datetime.\<close>

definition datetime_min :: datetime where
  "datetime_min = datetime_ymd 1 1 1"

text \<open>The dataclass \<open>TemporalRecord\<close>; \<open>rec_value\<close> and \<open>rec_unit\<close> are its fields
  \<open>value\<close> and \<open>unit\<close>.\<close>

record TemporalRecord =
  first_name :: string
  last_name :: string
  loinc_num :: string
  rec_value :: string
  rec_unit :: string
  valid_time :: datetime
  system_from :: datetime
  system_to :: "datetime option"

text \<open>
  The attributes of a \<open>TemporalDB\<close> object. The list \<open>records\<close> holds distinct objects
  (the loader and \<open>update_value\<close> append a fresh object each time), so an object is
  identified by its position in the list and a field assignment on an object is an
  update of the list at that position.
\<close>

record TemporalDB =
  current_time :: datetime
  records :: "TemporalRecord list"
  loinc_name :: "string \<rightharpoonup> string"

datatype py_error = ValueError | KeyError

subsection \<open>Helpers\<close>

definition set_current_time :: "TemporalDB \<Rightarrow> datetime \<Rightarrow> TemporalDB" where
  "set_current_time db t = db\<lparr>current_time := t\<rparr>"

definition is_alive_at :: "TemporalRecord \<Rightarrow> datetime \<Rightarrow> bool" where
  "is_alive_at r t =
     (if system_from r > t then False
      else if (case system_to r of None \<Rightarrow> False | Some e \<Rightarrow> e \<le> t) then False
      else True)"

text \<open>
  Python's \<open>max(xs, key=f)\<close>: the first element whose key no later element exceeds
  strictly; \<open>ValueError\<close> on an empty sequence.
\<close>

fun max_from :: "('a \<Rightarrow> 'k::linorder) \<Rightarrow> 'a \<Rightarrow> 'a list \<Rightarrow> 'a" where
  "max_from key best [] = best"
| "max_from key best (x # xs) = max_from key (if key x > key best then x else best) xs"

definition py_max :: "('a \<Rightarrow> 'k::linorder) \<Rightarrow> 'a list \<Rightarrow> py_error + 'a" where
  "py_max key xs = (case xs of [] \<Rightarrow> Inl ValueError | x # ys \<Rightarrow> Inr (max_from key x ys))"

text \<open>\<open>d.get(k, default)\<close>\<close>

definition dict_get :: "('k \<rightharpoonup> 'v) \<Rightarrow> 'k \<Rightarrow> 'v \<Rightarrow> 'v" where
  "dict_get d k dflt = (case d k of None \<Rightarrow> dflt | Some v \<Rightarrow> v)"

section \<open>Queries\<close>

text \<open>The dictionary returned by \<open>query_value\<close>, one field per key.\<close>

record value_result =
  res_first_name :: string
  res_last_name :: string
  res_loinc :: string
  res_long_common_name :: string
  res_value :: string
  res_unit :: string
  res_valid_time :: datetime
  res_system_from :: datetime
  res_system_to :: "datetime option"

definition value_dict :: "TemporalRecord \<Rightarrow> string \<Rightarrow> value_result" where
  "value_dict best long_name =
     \<lparr>res_first_name = first_name best, res_last_name = last_name best,
      res_loinc = loinc_num best, res_long_common_name = long_name,
      res_value = rec_value best, res_unit = rec_unit best,
      res_valid_time = valid_time best, res_system_from = system_from best,
      res_system_to = system_to best\<rparr>"

text \<open>The comprehension filter shared by \<open>query_value\<close> and \<open>delete_value\<close>:
  patient, LOINC code and the calendar day of the valid time.\<close>

definition same_day_match :: "string \<Rightarrow> string \<Rightarrow> string \<Rightarrow> datetime \<Rightarrow> TemporalRecord \<Rightarrow> bool" where
  "same_day_match fn ln code date r =
     (first_name r = fn \<and> last_name r = ln \<and> loinc_num r = code
      \<and> date_of (valid_time r) = date_of date)"

text \<open>
  \<open>query_value\<close>. The result \<open>Inr None\<close> is Python's \<open>return None\<close>, \<open>Inr (Some d)\<close> the
  returned dictionary, \<open>Inl e\<close> an exception raised by \<open>max\<close>.
\<close>

definition query_value ::
  "TemporalDB \<Rightarrow> string \<Rightarrow> string \<Rightarrow> string \<Rightarrow> datetime \<Rightarrow> pytime option \<Rightarrow> datetime option
     \<Rightarrow> py_error + value_result option" where
  "query_value db fn ln code date time perspective_time =
     (let perspective_time = (case perspective_time of None \<Rightarrow> current_time db | Some p \<Rightarrow> p);
          candidates = filter (same_day_match fn ln code date) (records db);
          finish = (\<lambda>best. Inr (Some (value_dict best (dict_get (loinc_name db) code code))))
      in if candidates = [] then Inr None
         else (case time of
             Some tm \<Rightarrow>
               (let same_time = filter (\<lambda>r. time_of (valid_time r) = tm) candidates
                in if same_time = [] then Inr None
                   else (let alive = filter (\<lambda>r. is_alive_at r perspective_time) same_time
                         in if alive = [] then Inr None
                            else (case py_max system_from alive of
                                    Inl e \<Rightarrow> Inl e
                                  | Inr best \<Rightarrow> finish best)))
           | None \<Rightarrow>
               (let alive = filter (\<lambda>r. is_alive_at r perspective_time) candidates
                in if alive = [] then Inr None
                   else (case py_max (\<lambda>v. v) (map valid_time alive) of
                           Inl e \<Rightarrow> Inl e
                         | Inr max_valid \<Rightarrow>
                             (let latest_same_time = filter (\<lambda>r. valid_time r = max_valid) alive
                              in case py_max system_from latest_same_time of
                                   Inl e \<Rightarrow> Inl e
                                 | Inr best \<Rightarrow> finish best)))))"

text \<open>One dictionary of the list returned by \<open>query_history\<close>.\<close>

record history_row =
  row_valid_time :: datetime
  row_value :: string
  row_unit :: string
  row_system_from :: datetime
  row_system_to :: "datetime option"
  row_long_common_name :: string

definition history_dict :: "TemporalRecord \<Rightarrow> string \<Rightarrow> history_row" where
  "history_dict r long_name =
     \<lparr>row_valid_time = valid_time r, row_value = rec_value r, row_unit = rec_unit r,
      row_system_from = system_from r, row_system_to = system_to r,
      row_long_common_name = long_name\<rparr>"

text \<open>
  The dictionary \<open>groups\<close> is an association list in insertion order. One round of the
  grouping loop: the record replaces the entry of its valid time when there is none or
  when the entry's \<open>system_from\<close> is strictly smaller.
\<close>

definition group_step ::
  "TemporalRecord \<Rightarrow> (datetime \<times> TemporalRecord) list \<Rightarrow> (datetime \<times> TemporalRecord) list" where
  "group_step r groups =
     (let key = valid_time r
      in case map_of groups key of
           None \<Rightarrow> AList.update key r groups
         | Some g \<Rightarrow> if system_from g < system_from r then AList.update key r groups else groups)"

text \<open>The result loop: \<open>groups[vt]\<close> for each key in turn, \<open>KeyError\<close> on a missing key.\<close>

fun history_rows ::
  "(datetime \<times> TemporalRecord) list \<Rightarrow> string \<Rightarrow> datetime list \<Rightarrow> py_error + history_row list" where
  "history_rows groups long_name [] = Inr []"
| "history_rows groups long_name (vt # vts) =
     (case map_of groups vt of
        None \<Rightarrow> Inl KeyError
      | Some r \<Rightarrow> (case history_rows groups long_name vts of
                    Inl e \<Rightarrow> Inl e
                  | Inr rows \<Rightarrow> Inr (history_dict r long_name # rows)))"

definition history_candidates ::
  "TemporalDB \<Rightarrow> string \<Rightarrow> string \<Rightarrow> string \<Rightarrow> datetime \<Rightarrow> datetime \<Rightarrow> TemporalRecord list" where
  "history_candidates db fn ln code valid_from valid_to =
     filter (\<lambda>r. first_name r = fn \<and> last_name r = ln \<and> loinc_num r = code
                 \<and> valid_from \<le> valid_time r \<and> valid_time r \<le> valid_to) (records db)"

definition query_history ::
  "TemporalDB \<Rightarrow> string \<Rightarrow> string \<Rightarrow> string \<Rightarrow> datetime \<Rightarrow> datetime
     \<Rightarrow> datetime option \<Rightarrow> datetime option \<Rightarrow> py_error + history_row list" where
  "query_history db fn ln code valid_from valid_to tx_from tx_to =
     (let tx_from = (case tx_from of None \<Rightarrow> datetime_ymd 1900 1 1 | Some t \<Rightarrow> t);
          tx_to = (case tx_to of None \<Rightarrow> current_time db | Some t \<Rightarrow> t);
          candidates = history_candidates db fn ln code valid_from valid_to;
          tx_filtered = filter (\<lambda>r. tx_from \<le> system_from r \<and> system_from r \<le> tx_to) candidates;
          groups = fold group_step tx_filtered [];
          long_name = dict_get (loinc_name db) code code
      in history_rows groups long_name (sort (map fst groups)))"

section \<open>Updates\<close>

text \<open>What the two mutating methods print.\<close>

datatype report =
    No_record_found_to_update
  | Update_done TemporalRecord TemporalRecord
  | No_record_found_to_delete
  | No_record_with_this_exact_time
  | Logical_delete_done datetime TemporalRecord

text \<open>
  \<open>update_value\<close>. The candidates are the positions of the matching objects in
  \<open>records\<close>; \<open>current.system_to = t_update\<close> is the update of the list at the position
  of \<open>current\<close>.
\<close>

definition update_candidates ::
  "TemporalRecord list \<Rightarrow> string \<Rightarrow> string \<Rightarrow> string \<Rightarrow> datetime \<Rightarrow> datetime \<Rightarrow> nat list" where
  "update_candidates rs fn ln code vt t_update =
     filter (\<lambda>i. first_name (rs ! i) = fn \<and> last_name (rs ! i) = ln \<and> loinc_num (rs ! i) = code
                 \<and> valid_time (rs ! i) = vt \<and> is_alive_at (rs ! i) t_update) [0..<length rs]"

definition update_value ::
  "TemporalDB \<Rightarrow> string \<Rightarrow> string \<Rightarrow> string \<Rightarrow> datetime \<Rightarrow> string \<Rightarrow> datetime option
     \<Rightarrow> py_error + (report \<times> TemporalDB)" where
  "update_value db fn ln code vt new_value t_update =
     (let t_update = (case t_update of None \<Rightarrow> current_time db | Some t \<Rightarrow> t);
          rs = records db;
          candidates = update_candidates rs fn ln code vt t_update
      in if candidates = [] then Inr (No_record_found_to_update, db)
         else (case py_max (\<lambda>i. system_from (rs ! i)) candidates of
                 Inl e \<Rightarrow> Inl e
               | Inr current \<Rightarrow>
                   (let rs1 = rs[current := (rs ! current)\<lparr>system_to := Some t_update\<rparr>];
                        cur = rs1 ! current;
                        new_rec = \<lparr>first_name = first_name cur, last_name = last_name cur,
                                   loinc_num = loinc_num cur, rec_value = new_value,
                                   rec_unit = rec_unit cur, valid_time = valid_time cur,
                                   system_from = t_update, system_to = None\<rparr>
                    in Inr (Update_done cur new_rec, db\<lparr>records := rs1 @ [new_rec]\<rparr>))))"

definition delete_candidates ::
  "TemporalRecord list \<Rightarrow> string \<Rightarrow> string \<Rightarrow> string \<Rightarrow> datetime \<Rightarrow> datetime \<Rightarrow> nat list" where
  "delete_candidates rs fn ln code date t_delete =
     filter (\<lambda>i. same_day_match fn ln code date (rs ! i) \<and> is_alive_at (rs ! i) t_delete)
       [0..<length rs]"

text \<open>
  The narrowing of the candidates in \<open>delete_value\<close>: \<open>Inr None\<close> is the early return
  after "No record with this exact time.".
\<close>

definition delete_narrow ::
  "TemporalRecord list \<Rightarrow> nat list \<Rightarrow> pytime option \<Rightarrow> py_error + nat list option" where
  "delete_narrow rs candidates time =
     (case time of
        Some tm \<Rightarrow>
          (let candidates' = filter (\<lambda>i. time_of (valid_time (rs ! i)) = tm) candidates
           in if candidates' = [] then Inr None else Inr (Some candidates'))
      | None \<Rightarrow>
          (case py_max (\<lambda>v. v) (map (\<lambda>i. valid_time (rs ! i)) candidates) of
             Inl e \<Rightarrow> Inl e
           | Inr max_valid \<Rightarrow> Inr (Some (filter (\<lambda>i. valid_time (rs ! i) = max_valid) candidates))))"

definition delete_value ::
  "TemporalDB \<Rightarrow> string \<Rightarrow> string \<Rightarrow> string \<Rightarrow> datetime \<Rightarrow> pytime option \<Rightarrow> datetime option
     \<Rightarrow> py_error + (report \<times> TemporalDB)" where
  "delete_value db fn ln code date time t_delete =
     (let t_delete = (case t_delete of None \<Rightarrow> current_time db | Some t \<Rightarrow> t);
          rs = records db;
          candidates = delete_candidates rs fn ln code date t_delete
      in if candidates = [] then Inr (No_record_found_to_delete, db)
         else (case delete_narrow rs candidates time of
                 Inl e \<Rightarrow> Inl e
               | Inr None \<Rightarrow> Inr (No_record_with_this_exact_time, db)
               | Inr (Some candidates') \<Rightarrow>
                   (case py_max (\<lambda>i. system_from (rs ! i)) candidates' of
                      Inl e \<Rightarrow> Inl e
                    | Inr target \<Rightarrow>
                        (let rs1 = rs[target := (rs ! target)\<lparr>system_to := Some t_delete\<rparr>]
                         in Inr (Logical_delete_done t_delete (rs1 ! target),
                                 db\<lparr>records := rs1\<rparr>)))))"

subsection \<open>Sequences of mutations\<close>

datatype mutation =
    UpdateValue string string string datetime string "datetime option"
  | DeleteValue string string string datetime "pytime option" "datetime option"

fun apply_mutation :: "TemporalDB \<Rightarrow> mutation \<Rightarrow> py_error + TemporalDB" where
  "apply_mutation db (UpdateValue fn ln code vt new_value t) =
     (case update_value db fn ln code vt new_value t of Inl e \<Rightarrow> Inl e | Inr (_, db') \<Rightarrow> Inr db')"
| "apply_mutation db (DeleteValue fn ln code date time t) =
     (case delete_value db fn ln code date time t of Inl e \<Rightarrow> Inl e | Inr (_, db') \<Rightarrow> Inr db')"

fun run_mutations :: "TemporalDB \<Rightarrow> mutation list \<Rightarrow> py_error + TemporalDB" where
  "run_mutations db [] = Inr db"
| "run_mutations db (m # ms) =
     (case apply_mutation db m of Inl e \<Rightarrow> Inl e | Inr db' \<Rightarrow> run_mutations db' ms)"

text \<open>The transaction time a mutation runs at: its time argument, or the clock.\<close>

fun mutation_time :: "TemporalDB \<Rightarrow> mutation \<Rightarrow> datetime" where
  "mutation_time db (UpdateValue fn ln code vt new_value t) =
     (case t of None \<Rightarrow> current_time db | Some u \<Rightarrow> u)"
| "mutation_time db (DeleteValue fn ln code date time t) =
     (case t of None \<Rightarrow> current_time db | Some u \<Rightarrow> u)"

section \<open>The aliveness predicate\<close>

text \<open>
  Claim C1. For every record \<open>r\<close> and every time \<open>t\<close>, \<open>is_alive_at r t\<close> is true exactly
  when \<open>system_from r \<le> t\<close> and \<open>system_to r\<close> is absent or \<open>t\<close> is strictly before it.
  The function is a total, state-free HOL function of the record and the time only.
\<close>

theorem is_alive_at_iff:
  "is_alive_at r t = (system_from r \<le> t \<and> (case system_to r of None \<Rightarrow> True | Some e \<Rightarrow> t < e))"
  by (simp add: is_alive_at_def not_less not_le split: option.split)

end
